theory Spec2Isabelle
  imports Main "HOL-Library.Word"
begin

unbundle bit_operations_syntax

section \<open>The header \<open>include/openenclave/bits/exception.h\<close>\<close>

text \<open>
  The header declares integer macros, three structs and one function-pointer type.
  A macro is an unsuffixed hexadecimal literal. Every literal of the header fits in 32
  bits, and the two that do not fit a signed 32-bit \<open>int\<close> (\<open>0xFFFFFFFF\<close> and
  \<open>0xFFFFFFF0\<close>) have the C type \<open>unsigned int\<close>; a macro is therefore a
  \<open>32 word\<close>, and its conversion to \<open>uint64_t\<close> is the zero extension \<open>ucast\<close>.
\<close>

type_synonym uint8_t = "8 word"
type_synonym uint32_t = "32 word"
type_synonym uint64_t = "64 word"

subsection \<open>Return values of a vectored exception handler\<close>

definition OE_EXCEPTION_CONTINUE_SEARCH :: uint32_t where
  "OE_EXCEPTION_CONTINUE_SEARCH = 0x0"

definition OE_EXCEPTION_CONTINUE_EXECUTION :: uint32_t where
  "OE_EXCEPTION_CONTINUE_EXECUTION = 0xFFFFFFFF"

definition OE_EXCEPTION_ABORT_EXECUTION :: uint32_t where
  "OE_EXCEPTION_ABORT_EXECUTION = 0xFFFFFFF0"

text \<open>The three return-value macros, in the order the header defines them.\<close>

definition oe_handler_return_values :: "uint32_t list" where
  "oe_handler_return_values =
     [OE_EXCEPTION_CONTINUE_SEARCH, OE_EXCEPTION_CONTINUE_EXECUTION,
      OE_EXCEPTION_ABORT_EXECUTION]"

subsection \<open>Exception codes\<close>

definition OE_EXCEPTION_DIVIDE_BY_ZERO :: uint32_t where
  "OE_EXCEPTION_DIVIDE_BY_ZERO = 0x0"

definition OE_EXCEPTION_BREAKPOINT :: uint32_t where
  "OE_EXCEPTION_BREAKPOINT = 0x1"

definition OE_EXCEPTION_BOUND_OUT_OF_RANGE :: uint32_t where
  "OE_EXCEPTION_BOUND_OUT_OF_RANGE = 0x2"

definition OE_EXCEPTION_ILLEGAL_INSTRUCTION :: uint32_t where
  "OE_EXCEPTION_ILLEGAL_INSTRUCTION = 0x3"

definition OE_EXCEPTION_ACCESS_VIOLATION :: uint32_t where
  "OE_EXCEPTION_ACCESS_VIOLATION = 0x4"

definition OE_EXCEPTION_PAGE_FAULT :: uint32_t where
  "OE_EXCEPTION_PAGE_FAULT = 0x5"

definition OE_EXCEPTION_X87_FLOAT_POINT :: uint32_t where
  "OE_EXCEPTION_X87_FLOAT_POINT = 0x6"

definition OE_EXCEPTION_MISALIGNMENT :: uint32_t where
  "OE_EXCEPTION_MISALIGNMENT = 0x7"

definition OE_EXCEPTION_SIMD_FLOAT_POINT :: uint32_t where
  "OE_EXCEPTION_SIMD_FLOAT_POINT = 0x8"

definition OE_EXCEPTION_UNKNOWN :: uint32_t where
  "OE_EXCEPTION_UNKNOWN = 0xFFFFFFFF"

text \<open>The ten exception-code macros, in the order the header defines them.\<close>

definition oe_exception_codes :: "uint32_t list" where
  "oe_exception_codes =
     [OE_EXCEPTION_DIVIDE_BY_ZERO, OE_EXCEPTION_BREAKPOINT,
      OE_EXCEPTION_BOUND_OUT_OF_RANGE, OE_EXCEPTION_ILLEGAL_INSTRUCTION,
      OE_EXCEPTION_ACCESS_VIOLATION, OE_EXCEPTION_PAGE_FAULT,
      OE_EXCEPTION_X87_FLOAT_POINT, OE_EXCEPTION_MISALIGNMENT,
      OE_EXCEPTION_SIMD_FLOAT_POINT, OE_EXCEPTION_UNKNOWN]"

subsection \<open>Exception flags\<close>

definition OE_EXCEPTION_FLAGS_HARDWARE :: uint32_t where
  "OE_EXCEPTION_FLAGS_HARDWARE = 0x1"

definition OE_EXCEPTION_FLAGS_SOFTWARE :: uint32_t where
  "OE_EXCEPTION_FLAGS_SOFTWARE = 0x2"

subsection \<open>Flags of the page-fault error code\<close>

definition OE_SGX_PAGE_FAULT_P_FLAG :: uint32_t where
  "OE_SGX_PAGE_FAULT_P_FLAG = 0x1"

definition OE_SGX_PAGE_FAULT_WR_FLAG :: uint32_t where
  "OE_SGX_PAGE_FAULT_WR_FLAG = 0x2"

definition OE_SGX_PAGE_FAULT_US_FLAG :: uint32_t where
  "OE_SGX_PAGE_FAULT_US_FLAG = 0x4"

definition OE_SGX_PAGE_FAULT_RSVD :: uint32_t where
  "OE_SGX_PAGE_FAULT_RSVD = 0x8"

definition OE_SGX_PAGE_FAULT_ID_FLAG :: uint32_t where
  "OE_SGX_PAGE_FAULT_ID_FLAG = 0x10"

definition OE_SGX_PAGE_FAULT_PK_FLAG :: uint32_t where
  "OE_SGX_PAGE_FAULT_PK_FLAG = 0x20"

definition OE_SGX_PAGE_FAULT_SGX_FLAG :: uint32_t where
  "OE_SGX_PAGE_FAULT_SGX_FLAG = 0x8000"

text \<open>
  The header documents each flag as a test of the \<open>error_code\<close> field: the flag's
  comment gives the meaning of the masked bit being 0 and of its being 1.
\<close>

definition flag_set :: "uint32_t \<Rightarrow> uint32_t \<Rightarrow> bool" where
  "flag_set error_code flag = (error_code AND flag \<noteq> 0)"

subsection \<open>\<open>oe_basic_xstate_t\<close>\<close>

text \<open>
  \<open>uint8_t blob[512]\<close>: an array of exactly 512 bytes. The type holds the byte lists of
  that length and no others; \<open>blob\<close> reads the array.
\<close>

typedef oe_basic_xstate_t = "{bs :: uint8_t list. length bs = 512}"
  morphisms blob Abs_oe_basic_xstate_t
proof
  show "replicate 512 0 \<in> {bs :: uint8_t list. length bs = 512}"
    by simp
qed

text \<open>
  The struct is declared \<open>OE_ALIGNED(16)\<close>; the number is the alignment the declaration
  asks for.
\<close>

definition oe_basic_xstate_t_aligned :: nat where
  "oe_basic_xstate_t_aligned = 16"

subsection \<open>\<open>oe_context_t\<close>\<close>

record oe_context_t =
  flags :: uint64_t
  rax :: uint64_t
  rbx :: uint64_t
  rcx :: uint64_t
  rdx :: uint64_t
  rbp :: uint64_t
  rsp :: uint64_t
  rdi :: uint64_t
  rsi :: uint64_t
  r8 :: uint64_t
  r9 :: uint64_t
  r10 :: uint64_t
  r11 :: uint64_t
  r12 :: uint64_t
  r13 :: uint64_t
  r14 :: uint64_t
  r15 :: uint64_t
  rip :: uint64_t
  mxcsr :: uint32_t
  basic_xstate :: oe_basic_xstate_t

text \<open>
  The sixteen members the header comments as "Integer register", \<open>rax\<close> to \<open>r15\<close>, in
  declaration order (\<open>rip\<close>, the seventeenth, is the instruction pointer).
\<close>

definition general_registers :: "oe_context_t \<Rightarrow> uint64_t list" where
  "general_registers c =
     [rax c, rbx c, rcx c, rdx c, rbp c, rsp c, rdi c, rsi c,
      r8 c, r9 c, r10 c, r11 c, r12 c, r13 c, r14 c, r15 c]"

subsection \<open>\<open>oe_exception_record_t\<close>\<close>

text \<open>
  \<open>oe_context_t* context\<close> is a pointer: the record stores the address of a context, not a
  context. (\<open>context\<close> is a keyword of Isabelle, hence the prime.)
\<close>

record oe_exception_record_t =
  code :: uint32_t
  flags :: uint32_t
  address :: uint64_t
  faulting_address :: uint64_t
  error_code :: uint32_t
  context' :: uint64_t

subsection \<open>\<open>oe_vectored_exception_handler_t\<close>\<close>

text \<open>
  A pointer to a function that takes \<open>oe_exception_record_t* exception_context\<close> and
  returns \<open>uint64_t\<close>. The handler is given the address of a record, runs on the memory
  that holds the record and the context the record points to, and returns a \<open>uint64_t\<close>
  together with the memory as it left it.
\<close>

record memory =
  exception_records :: "uint64_t \<rightharpoonup> oe_exception_record_t"
  contexts :: "uint64_t \<rightharpoonup> oe_context_t"

type_synonym oe_vectored_exception_handler_t =
  "uint64_t \<Rightarrow> memory \<Rightarrow> uint64_t \<times> memory"

subsection \<open>Two functions of the handler type\<close>






section \<open>The Exception Record Builder\<close>

text \<open>
  The header declares data only. The builder that turns what the trap-entry path hands
  over into the record a handler receives is described in the specification (its sections
  3, 4.1 and 6), and its code is not part of the header; the definitions of this section
  follow the specification's words. What the builder builds is the header's
  \<open>oe_exception_record_t\<close>, whose member \<open>context\<close> is the address of the RegisterContext.
\<close>

text \<open>
  Modelled from the spec: ErrorCodeBits (section 3), "a pure decoding view" of the
  extended-fault error code, with the fields the specification names (section 6:
  bit 0 protection violation versus not present, bit 1 write versus read, bit 2 user
  versus supervisor, bit 3 reserved-bit violation, bit 4 instruction fetch, bit 5
  protection-key violation, bit 15 isolation-boundary-specific fault). Each field is the
  header's test of the error code against the corresponding flag. (\<open>write\<close> is a keyword of
  Isabelle, hence the prime.)
\<close>

record ErrorCodeBits =
  present :: bool
  write' :: bool
  user_mode :: bool
  reserved_bit :: bool
  instruction_fetch :: bool
  protection_key :: bool
  isolation_specific :: bool

definition decode_error_code :: "uint32_t \<Rightarrow> ErrorCodeBits" where
  "decode_error_code ec =
     \<lparr> present = flag_set ec OE_SGX_PAGE_FAULT_P_FLAG,
       write' = flag_set ec OE_SGX_PAGE_FAULT_WR_FLAG,
       user_mode = flag_set ec OE_SGX_PAGE_FAULT_US_FLAG,
       reserved_bit = flag_set ec OE_SGX_PAGE_FAULT_RSVD,
       instruction_fetch = flag_set ec OE_SGX_PAGE_FAULT_ID_FLAG,
       protection_key = flag_set ec OE_SGX_PAGE_FAULT_PK_FLAG,
       isolation_specific = flag_set ec OE_SGX_PAGE_FAULT_SGX_FLAG \<rparr>"

text \<open>
  Modelled from the spec: the extended-fault payload (section 3), "faulting memory
  address + a bitfield error code".
\<close>

record ExtendedFault =
  ef_faulting_address :: uint64_t
  ef_error_code :: uint32_t

text \<open>
  Modelled from the spec: what the builder hands on (section 3): the ExceptionRecord,
  which is the header's \<open>oe_exception_record_t\<close>, and the RegisterContext its member
  \<open>context\<close> points to, which is the header's \<open>oe_context_t\<close>.
\<close>

record BuiltException =
  exception_record :: oe_exception_record_t
  register_context :: oe_context_t

text \<open>
  Modelled from the spec: the register part of the raw trap payload (section 6,
  "RegisterContext bytes"), one value per member of \<open>oe_context_t\<close> other than the basic
  xstate.
\<close>

record RawRegisters =
  raw_context_flags :: uint64_t
  raw_rax :: uint64_t
  raw_rbx :: uint64_t
  raw_rcx :: uint64_t
  raw_rdx :: uint64_t
  raw_rbp :: uint64_t
  raw_rsp :: uint64_t
  raw_rdi :: uint64_t
  raw_rsi :: uint64_t
  raw_r8 :: uint64_t
  raw_r9 :: uint64_t
  raw_r10 :: uint64_t
  raw_r11 :: uint64_t
  raw_r12 :: uint64_t
  raw_r13 :: uint64_t
  raw_r14 :: uint64_t
  raw_r15 :: uint64_t
  raw_rip :: uint64_t
  raw_mxcsr :: uint32_t

text \<open>
  Modelled from the spec: the raw trap payload (sections 4.1 and 6): "exception code
  (unsigned 32-bit), flags, faulting address (unsigned 64-bit), RegisterContext bytes, and
  optionally a raw extended-fault error code". The xstate bytes come as a list of any
  length, and \<open>raw_context_address\<close> is the address of the buffer the trap stub allocated
  for the RegisterContext (section 3), which section 6 requires to be 16-byte aligned.
  The optional extended-fault information is the faulting memory address with the
  error code; \<open>raw_extended_marked_available\<close> is the payload's own mark of whether that
  information is available (section 4.1 speaks of "extended info marked unavailable while
  claimed present").
\<close>

record RawTrapPayload =
  raw_code :: uint32_t
  raw_flags :: uint32_t
  raw_address :: uint64_t
  raw_registers :: RawRegisters
  raw_xstate :: "uint8_t list"
  raw_context_address :: uint64_t
  raw_extended_marked_available :: bool
  raw_extended_fault :: "ExtendedFault option"

text \<open>
  Modelled from the spec: what the builder knows of its enclave (section 4.1): whether
  "the platform capability that makes this information authentic is present", whether
  "the enclave has explicitly opted in", and "the enclave's own known code/data address
  range". The specification leaves the range test open (section 9), so it is a parameter.
\<close>

record BuilderEnv =
  platform_capability :: bool
  opted_in :: bool
  enclave_owned :: "uint64_t \<Rightarrow> bool"

text \<open>
  Modelled from the spec: the ways the builder "fails closed" (section 4.1): the payload
  is structurally malformed, or an address fails the mandatory range check.
\<close>

datatype BuildFailure = Malformed_Payload | Address_Not_Enclave_Owned

text \<open>
  Modelled from the spec: "The exception code must map to one of the closed enumeration
  values; any other value is normalized to unknown" (section 4.1). The enumeration is the
  header's list of exception codes.
\<close>

definition normalize_code :: "uint32_t \<Rightarrow> uint32_t" where
  "normalize_code c = (if c \<in> set oe_exception_codes then c else OE_EXCEPTION_UNKNOWN)"

text \<open>
  Modelled from the spec: the "page-fault/general-protection conditions" (section 3), the
  only ones with an extended-fault payload. Of the ten codes, a page fault is
  \<open>OE_EXCEPTION_PAGE_FAULT\<close> and a general-protection fault is
  \<open>OE_EXCEPTION_ACCESS_VIOLATION\<close>.
\<close>

definition carries_extended_fault :: "uint32_t \<Rightarrow> bool" where
  "carries_extended_fault c =
     (c = OE_EXCEPTION_PAGE_FAULT \<or> c = OE_EXCEPTION_ACCESS_VIOLATION)"

text \<open>
  Modelled from the spec: the builder "does enforce the fixed 512-byte size" of the xstate
  blob (section 4.1); a blob of another size is the "wrong size" of a malformed payload.
\<close>

definition check_xstate :: "uint8_t list \<Rightarrow> oe_basic_xstate_t option" where
  "check_xstate bytes =
     (if length bytes = 512 then Some (Abs_oe_basic_xstate_t bytes) else None)"

text \<open>
  Modelled from the spec: the builder enforces the "required alignment" (section 4.1),
  which is 16 bytes (sections 3 and 6), the alignment the header declares; a buffer at
  another address is the "misaligned buffer" of a malformed payload.
\<close>

definition buffer_aligned :: "uint64_t \<Rightarrow> bool" where
  "buffer_aligned a = (unat a mod oe_basic_xstate_t_aligned = 0)"

text \<open>
  Modelled from the spec: the third kind of malformed payload (section 4.1), "code
  requiring extended info but extended info marked unavailable while claimed present".
\<close>

definition extended_info_inconsistent :: "RawTrapPayload \<Rightarrow> bool" where
  "extended_info_inconsistent raw =
     (carries_extended_fault (raw_code raw)
      \<and> raw_extended_fault raw \<noteq> None
      \<and> \<not> raw_extended_marked_available raw)"

text \<open>
  Modelled from the spec: "The faulting instruction address and, for register-context
  purposes, the saved instruction pointer are checked against the enclave's own known
  code/data address range" (section 4.1).
\<close>

definition addresses_enclave_owned :: "BuilderEnv \<Rightarrow> RawTrapPayload \<Rightarrow> bool" where
  "addresses_enclave_owned env raw =
     (enclave_owned env (raw_address raw)
      \<and> enclave_owned env (raw_rip (raw_registers raw)))"

text \<open>
  Modelled from the spec: "The extended-fault payload (faulting address + error code) is
  included in the record only if (a) the platform capability that makes this information
  authentic is present, and (b) the enclave has explicitly opted in to receiving it for
  this exception class. If either condition is false, the payload is entirely absent from
  the record" (section 4.1).
\<close>

definition extended_fault_of :: "BuilderEnv \<Rightarrow> RawTrapPayload \<Rightarrow> ExtendedFault option" where
  "extended_fault_of env raw =
     (if platform_capability env \<and> opted_in env \<and> carries_extended_fault (raw_code raw)
      then raw_extended_fault raw else None)"

text \<open>
  The header's record has no member that says whether the payload is there:
  \<open>faulting_address\<close> and \<open>error_code\<close> are stored in every record. A record built without
  the payload has both zero.
\<close>

definition stored_faulting_address :: "ExtendedFault option \<Rightarrow> uint64_t" where
  "stored_faulting_address payload =
     (case payload of None \<Rightarrow> 0 | Some x \<Rightarrow> ef_faulting_address x)"

definition stored_error_code :: "ExtendedFault option \<Rightarrow> uint32_t" where
  "stored_error_code payload =
     (case payload of None \<Rightarrow> 0 | Some x \<Rightarrow> ef_error_code x)"

text \<open>
  Modelled from the spec: "The register/XSTATE blob is copied byte-for-byte with no
  interpretation" (section 4.1).
\<close>

definition copy_context :: "RawRegisters \<Rightarrow> oe_basic_xstate_t \<Rightarrow> oe_context_t" where
  "copy_context regs xstate =
     \<lparr> oe_context_t.flags = raw_context_flags regs,
       rax = raw_rax regs, rbx = raw_rbx regs, rcx = raw_rcx regs, rdx = raw_rdx regs,
       rbp = raw_rbp regs, rsp = raw_rsp regs, rdi = raw_rdi regs, rsi = raw_rsi regs,
       r8 = raw_r8 regs, r9 = raw_r9 regs, r10 = raw_r10 regs, r11 = raw_r11 regs,
       r12 = raw_r12 regs, r13 = raw_r13 regs, r14 = raw_r14 regs, r15 = raw_r15 regs,
       rip = raw_rip regs, mxcsr = raw_mxcsr regs, basic_xstate = xstate \<rparr>"

text \<open>
  Modelled from the spec: the Exception Record Builder (section 4.1): "given a raw trap
  payload ... produce a validated ExceptionRecord or fail closed". A payload that is
  malformed (wrong size, misaligned buffer, inconsistent extended info), or whose
  addresses fail the range check, gives no record; otherwise the record has the
  normalized code, the payload's flags and faulting instruction address, the
  extended-fault payload the two conditions admit, and the address of the context.
\<close>

definition build_exception_record ::
  "BuilderEnv \<Rightarrow> RawTrapPayload \<Rightarrow> BuildFailure + BuiltException" where
  "build_exception_record env raw =
     (case check_xstate (raw_xstate raw) of
        None \<Rightarrow> Inl Malformed_Payload
      | Some xstate \<Rightarrow>
          if \<not> buffer_aligned (raw_context_address raw) then Inl Malformed_Payload
          else if extended_info_inconsistent raw then Inl Malformed_Payload
          else if \<not> addresses_enclave_owned env raw then Inl Address_Not_Enclave_Owned
          else Inr \<lparr> exception_record =
                       \<lparr> code = normalize_code (raw_code raw),
                         flags = raw_flags raw,
                         address = raw_address raw,
                         faulting_address =
                           stored_faulting_address (extended_fault_of env raw),
                         error_code = stored_error_code (extended_fault_of env raw),
                         context' = raw_context_address raw \<rparr>,
                     register_context = copy_context (raw_registers raw) xstate \<rparr>)"

subsection \<open>A payload and an enclave to run the builder on\<close>

text \<open>
  A hardware exception at \<open>0x7F0000001000\<close> with exception code \<open>c\<close>, a zeroed xstate of
  512 bytes in a buffer at \<open>0x7F0000100000\<close>, and extended-fault information that is
  marked available: faulting memory address \<open>0x7F0000002000\<close>, error code \<open>0x6\<close>.
\<close>

definition example_registers :: RawRegisters where
  "example_registers =
     \<lparr> raw_context_flags = 0x1,
       raw_rax = 0, raw_rbx = 0, raw_rcx = 0, raw_rdx = 0, raw_rbp = 0, raw_rsp = 0,
       raw_rdi = 0, raw_rsi = 0, raw_r8 = 0, raw_r9 = 0, raw_r10 = 0, raw_r11 = 0,
       raw_r12 = 0, raw_r13 = 0, raw_r14 = 0, raw_r15 = 0,
       raw_rip = 0x7F0000001000, raw_mxcsr = 0x1F80 \<rparr>"

definition example_payload :: "uint32_t \<Rightarrow> RawTrapPayload" where
  "example_payload c =
     \<lparr> raw_code = c,
       raw_flags = OE_EXCEPTION_FLAGS_HARDWARE,
       raw_address = 0x7F0000001000,
       raw_registers = example_registers,
       raw_xstate = replicate 512 0,
       raw_context_address = 0x7F0000100000,
       raw_extended_marked_available = True,
       raw_extended_fault =
         Some \<lparr> ef_faulting_address = 0x7F0000002000, ef_error_code = 0x6 \<rparr> \<rparr>"


text \<open>
  An enclave that owns the addresses from \<open>0x7F0000000000\<close> up to \<open>0x7F0001000000\<close>, with
  the platform capability and the opt-in as given.
\<close>

definition example_env :: "bool \<Rightarrow> bool \<Rightarrow> BuilderEnv" where
  "example_env capability opt_in =
     \<lparr> platform_capability = capability,
       opted_in = opt_in,
       enclave_owned = (\<lambda>a. 0x7F0000000000 \<le> a \<and> a < 0x7F0001000000) \<rparr>"

section \<open>Properties of the header\<close>

text \<open>
  C1. A handler returns an unsigned 64-bit integer, and returned from a handler the three
  macros are the 64-bit values \<open>0x0\<close> (continue search), \<open>0xFFFFFFFF\<close> (continue
  execution) and \<open>0xFFFFFFF0\<close> (abort execution): the upper 32 bits are zero, not a sign
  extension.
\<close>

theorem handler_return_values:
  fixes handler :: oe_vectored_exception_handler_t
  shows "uint (fst (handler exception_context m)) < 2 ^ 64
   \<and> 0 \<le> uint (fst (handler exception_context m))
   \<and> (ucast OE_EXCEPTION_CONTINUE_SEARCH :: uint64_t) = 0x0
   \<and> (ucast OE_EXCEPTION_CONTINUE_EXECUTION :: uint64_t) = 0xFFFFFFFF
   \<and> (ucast OE_EXCEPTION_ABORT_EXECUTION :: uint64_t) = 0xFFFFFFF0"
proof -
  have "uint (fst (handler exception_context m)) < 2 ^ LENGTH(64)"
    by (rule uint_lt2p)
  then show ?thesis
    by (simp add: OE_EXCEPTION_CONTINUE_SEARCH_def OE_EXCEPTION_CONTINUE_EXECUTION_def
        OE_EXCEPTION_ABORT_EXECUTION_def)
qed

text \<open>
  C10. \<open>OE_EXCEPTION_UNKNOWN\<close> and \<open>OE_EXCEPTION_CONTINUE_EXECUTION\<close> are the same number,
  \<open>0xFFFFFFFF\<close>, also once the first is stored in the 32-bit \<open>code\<close> field and the second
  is returned as a \<open>uint64_t\<close>; the exception codes and the handler return values are not
  disjoint sets of numbers.
\<close>

theorem unknown_code_is_continue_execution:
  "OE_EXCEPTION_UNKNOWN = OE_EXCEPTION_CONTINUE_EXECUTION
   \<and> OE_EXCEPTION_UNKNOWN = 0xFFFFFFFF
   \<and> (ucast OE_EXCEPTION_UNKNOWN :: uint64_t) = ucast OE_EXCEPTION_CONTINUE_EXECUTION
   \<and> OE_EXCEPTION_UNKNOWN \<in> set oe_exception_codes \<inter> set oe_handler_return_values"
  by (simp add: OE_EXCEPTION_UNKNOWN_def OE_EXCEPTION_CONTINUE_EXECUTION_def
      oe_exception_codes_def oe_handler_return_values_def)

text \<open>
  C4. Each flag of the error code is a single bit, and testing the error code against
  the flag reads exactly that bit: \<open>P\<close> is bit 0 (\<open>0x1\<close>), \<open>WR\<close> bit 1 (\<open>0x2\<close>), \<open>US\<close> bit 2
  (\<open>0x4\<close>), \<open>RSVD\<close> bit 3 (\<open>0x8\<close>), \<open>ID\<close> bit 4 (\<open>0x10\<close>), \<open>PK\<close> bit 5 (\<open>0x20\<close>) and \<open>SGX\<close>
  bit 15 (\<open>0x8000\<close>).
\<close>

theorem page_fault_flags_are_bits:
  "(OE_SGX_PAGE_FAULT_P_FLAG = 0x1 \<and> flag_set ec OE_SGX_PAGE_FAULT_P_FLAG = bit ec 0)
   \<and> (OE_SGX_PAGE_FAULT_WR_FLAG = 0x2 \<and> flag_set ec OE_SGX_PAGE_FAULT_WR_FLAG = bit ec 1)
   \<and> (OE_SGX_PAGE_FAULT_US_FLAG = 0x4 \<and> flag_set ec OE_SGX_PAGE_FAULT_US_FLAG = bit ec 2)
   \<and> (OE_SGX_PAGE_FAULT_RSVD = 0x8 \<and> flag_set ec OE_SGX_PAGE_FAULT_RSVD = bit ec 3)
   \<and> (OE_SGX_PAGE_FAULT_ID_FLAG = 0x10 \<and> flag_set ec OE_SGX_PAGE_FAULT_ID_FLAG = bit ec 4)
   \<and> (OE_SGX_PAGE_FAULT_PK_FLAG = 0x20 \<and> flag_set ec OE_SGX_PAGE_FAULT_PK_FLAG = bit ec 5)
   \<and> (OE_SGX_PAGE_FAULT_SGX_FLAG = 0x8000
        \<and> flag_set ec OE_SGX_PAGE_FAULT_SGX_FLAG = bit ec 15)"
proof -
  have test: "(ec AND 2 ^ n \<noteq> 0) = bit ec n" for n
    by (simp add: and_exp_eq_0_iff_not_bit)
  have p: "flag_set ec OE_SGX_PAGE_FAULT_P_FLAG = bit ec 0"
    using test [of 0] by (simp add: flag_set_def OE_SGX_PAGE_FAULT_P_FLAG_def)
  have wr: "flag_set ec OE_SGX_PAGE_FAULT_WR_FLAG = bit ec 1"
    using test [of 1] by (simp add: flag_set_def OE_SGX_PAGE_FAULT_WR_FLAG_def)
  have us: "flag_set ec OE_SGX_PAGE_FAULT_US_FLAG = bit ec 2"
    using test [of 2] by (simp add: flag_set_def OE_SGX_PAGE_FAULT_US_FLAG_def)
  have rsvd: "flag_set ec OE_SGX_PAGE_FAULT_RSVD = bit ec 3"
    using test [of 3] by (simp add: flag_set_def OE_SGX_PAGE_FAULT_RSVD_def)
  have id: "flag_set ec OE_SGX_PAGE_FAULT_ID_FLAG = bit ec 4"
    using test [of 4] by (simp add: flag_set_def OE_SGX_PAGE_FAULT_ID_FLAG_def)
  have pk: "flag_set ec OE_SGX_PAGE_FAULT_PK_FLAG = bit ec 5"
    using test [of 5] by (simp add: flag_set_def OE_SGX_PAGE_FAULT_PK_FLAG_def)
  have sgx: "flag_set ec OE_SGX_PAGE_FAULT_SGX_FLAG = bit ec 15"
    using test [of 15] by (simp add: flag_set_def OE_SGX_PAGE_FAULT_SGX_FLAG_def)
  show ?thesis
    unfolding p wr us rsvd id pk sgx
    by (simp add: OE_SGX_PAGE_FAULT_P_FLAG_def OE_SGX_PAGE_FAULT_WR_FLAG_def
        OE_SGX_PAGE_FAULT_US_FLAG_def OE_SGX_PAGE_FAULT_RSVD_def
        OE_SGX_PAGE_FAULT_ID_FLAG_def OE_SGX_PAGE_FAULT_PK_FLAG_def
        OE_SGX_PAGE_FAULT_SGX_FLAG_def)
qed

text \<open>
  C8. A context is its flag word, sixteen general-purpose registers, the instruction
  pointer \<open>rip\<close>, the control word \<open>mxcsr\<close> and the basic xstate, and nothing else: it is
  rebuilt from exactly these. The basic xstate is 512 bytes, declared with alignment 16,
  which divides its size.
\<close>

theorem oe_context_t_members:
  "length (general_registers c) = 16
   \<and> length (blob (basic_xstate c)) = 512
   \<and> oe_basic_xstate_t_aligned = 16
   \<and> length (blob (basic_xstate c)) mod oe_basic_xstate_t_aligned = 0
   \<and> c = \<lparr> oe_context_t.flags = oe_context_t.flags c,
       rax = general_registers c ! 0, rbx = general_registers c ! 1,
       rcx = general_registers c ! 2, rdx = general_registers c ! 3,
       rbp = general_registers c ! 4, rsp = general_registers c ! 5,
       rdi = general_registers c ! 6, rsi = general_registers c ! 7,
       r8 = general_registers c ! 8, r9 = general_registers c ! 9,
       r10 = general_registers c ! 10, r11 = general_registers c ! 11,
       r12 = general_registers c ! 12, r13 = general_registers c ! 13,
       r14 = general_registers c ! 14, r15 = general_registers c ! 15,
       rip = rip c, mxcsr = mxcsr c, basic_xstate = basic_xstate c \<rparr>"
proof -
  have size: "length (blob (basic_xstate c)) = 512"
    using blob [of "basic_xstate c"] by simp
  have regs: "length (general_registers c) = 16"
    by (simp add: general_registers_def)
  show ?thesis
    unfolding size regs
    by (simp add: general_registers_def oe_basic_xstate_t_aligned_def)
qed




section \<open>Properties of the Exception Record Builder\<close>

lemma built_record:
  "build_exception_record env raw = Inr b \<Longrightarrow>
   exception_record b =
     \<lparr> code = normalize_code (raw_code raw), flags = raw_flags raw,
       address = raw_address raw,
       faulting_address = stored_faulting_address (extended_fault_of env raw),
       error_code = stored_error_code (extended_fault_of env raw),
       context' = raw_context_address raw \<rparr>"
  by (auto simp: build_exception_record_def split: option.splits if_splits)

lemma built_context:
  "build_exception_record env raw = Inr b \<Longrightarrow>
   length (raw_xstate raw) = 512
   \<and> buffer_aligned (raw_context_address raw)
   \<and> register_context b =
       copy_context (raw_registers raw) (Abs_oe_basic_xstate_t (raw_xstate raw))"
  by (auto simp: build_exception_record_def check_xstate_def split: option.splits if_splits)

lemma normalize_code_member: "normalize_code c \<in> set oe_exception_codes"
  by (simp add: normalize_code_def oe_exception_codes_def)

lemma oe_exception_codes_values:
  "set oe_exception_codes = {0x0, 0x1, 0x2, 0x3, 0x4, 0x5, 0x6, 0x7, 0x8, 0xFFFFFFFF}"
  by (simp add: oe_exception_codes_def OE_EXCEPTION_DIVIDE_BY_ZERO_def
      OE_EXCEPTION_BREAKPOINT_def OE_EXCEPTION_BOUND_OUT_OF_RANGE_def
      OE_EXCEPTION_ILLEGAL_INSTRUCTION_def OE_EXCEPTION_ACCESS_VIOLATION_def
      OE_EXCEPTION_PAGE_FAULT_def OE_EXCEPTION_X87_FLOAT_POINT_def
      OE_EXCEPTION_MISALIGNMENT_def OE_EXCEPTION_SIMD_FLOAT_POINT_def
      OE_EXCEPTION_UNKNOWN_def)

text \<open>The builder accepts the example payload, whatever its code and the enclave's settings.\<close>

lemma example_built:
  "build_exception_record (example_env capability opt_in) (example_payload c) =
     Inr \<lparr> exception_record =
             \<lparr> code = normalize_code c,
               flags = OE_EXCEPTION_FLAGS_HARDWARE,
               address = 0x7F0000001000,
               faulting_address =
                 stored_faulting_address
                   (extended_fault_of (example_env capability opt_in) (example_payload c)),
               error_code =
                 stored_error_code
                   (extended_fault_of (example_env capability opt_in) (example_payload c)),
               context' = 0x7F0000100000 \<rparr>,
           register_context =
             copy_context example_registers (Abs_oe_basic_xstate_t (replicate 512 0)) \<rparr>"
  by (simp add: build_exception_record_def check_xstate_def buffer_aligned_def
      oe_basic_xstate_t_aligned_def extended_info_inconsistent_def
      addresses_enclave_owned_def example_payload_def example_env_def example_registers_def)

text \<open>
  C2. Whenever the builder builds a record, the record's exception code is one of the ten
  values \<open>0x0\<close> to \<open>0x8\<close> and \<open>0xFFFFFFFF\<close>, the header's exception codes. A raw code outside
  the ten becomes \<open>OE_EXCEPTION_UNKNOWN\<close>; a raw code among them is kept.
\<close>

theorem built_code_in_enumeration:
  assumes "build_exception_record env raw = Inr b"
  shows "code (exception_record b) \<in> {0x0, 0x1, 0x2, 0x3, 0x4, 0x5, 0x6, 0x7, 0x8, 0xFFFFFFFF}
     \<and> code (exception_record b) \<in> set oe_exception_codes
     \<and> (raw_code raw \<notin> {0x0, 0x1, 0x2, 0x3, 0x4, 0x5, 0x6, 0x7, 0x8, 0xFFFFFFFF}
          \<longrightarrow> code (exception_record b) = OE_EXCEPTION_UNKNOWN)
     \<and> (raw_code raw \<in> {0x0, 0x1, 0x2, 0x3, 0x4, 0x5, 0x6, 0x7, 0x8, 0xFFFFFFFF}
          \<longrightarrow> code (exception_record b) = raw_code raw)"
proof -
  have code: "code (exception_record b) = normalize_code (raw_code raw)"
    using built_record [OF assms] by simp
  show ?thesis
    unfolding code using normalize_code_member [of "raw_code raw"]
    by (simp add: oe_exception_codes_values normalize_code_def)
qed

text \<open>The raw code \<open>0x9\<close> is none of the ten; the record built from it has the code \<open>0xFFFFFFFF\<close>.\<close>

theorem built_code_in_enumeration_witness:
  "\<exists>b. build_exception_record (example_env True True) (example_payload 0x9) = Inr b
     \<and> raw_code (example_payload 0x9) = 0x9
     \<and> code (exception_record b) = 0xFFFFFFFF"
proof -
  obtain b where
    b: "build_exception_record (example_env True True) (example_payload 0x9) = Inr b"
    using example_built by blast
  show ?thesis
    using b built_code_in_enumeration [OF b]
    by (simp add: example_payload_def OE_EXCEPTION_UNKNOWN_def)
qed




text \<open>
  C5. A raw payload with exception code \<open>0x5\<close> and the hardware flag, whose extended-fault
  error code is \<open>0x6\<close>, on a platform with the capability and in an enclave that opted in:
  the record the builder builds is a hardware page fault with the payload, and its error
  code decodes to write, user mode and not present.
\<close>

theorem page_fault_scenario:
  assumes "raw_code raw = 0x5"
    and "raw_flags raw = OE_EXCEPTION_FLAGS_HARDWARE"
    and "platform_capability env" and "opted_in env"
    and "raw_extended_fault raw = Some x" and "ef_error_code x = 0x6"
    and "build_exception_record env raw = Inr b"
  shows "code (exception_record b) = OE_EXCEPTION_PAGE_FAULT
     \<and> oe_exception_record_t.flags (exception_record b) = OE_EXCEPTION_FLAGS_HARDWARE
     \<and> faulting_address (exception_record b) = ef_faulting_address x
     \<and> error_code (exception_record b) = 0x6
     \<and> write' (decode_error_code (error_code (exception_record b)))
     \<and> user_mode (decode_error_code (error_code (exception_record b)))
     \<and> \<not> present (decode_error_code (error_code (exception_record b)))"
proof -
  have r: "exception_record b =
     \<lparr> code = normalize_code (raw_code raw), flags = raw_flags raw,
       address = raw_address raw,
       faulting_address = stored_faulting_address (extended_fault_of env raw),
       error_code = stored_error_code (extended_fault_of env raw),
       context' = raw_context_address raw \<rparr>"
    using built_record [OF assms(7)] .
  have code: "normalize_code (raw_code raw) = OE_EXCEPTION_PAGE_FAULT"
    using assms(1)
    by (simp add: normalize_code_def oe_exception_codes_values OE_EXCEPTION_PAGE_FAULT_def)
  have ext: "extended_fault_of env raw = Some x"
    using assms(1,3,4,5)
    by (simp add: extended_fault_of_def carries_extended_fault_def OE_EXCEPTION_PAGE_FAULT_def)
  have bits: "write' (decode_error_code 0x6) \<and> user_mode (decode_error_code 0x6)
      \<and> \<not> present (decode_error_code 0x6)"
    by (simp add: decode_error_code_def flag_set_def OE_SGX_PAGE_FAULT_P_FLAG_def
        OE_SGX_PAGE_FAULT_WR_FLAG_def OE_SGX_PAGE_FAULT_US_FLAG_def)
  show ?thesis
    using bits
    by (simp add: r code ext assms(2,6) stored_faulting_address_def stored_error_code_def)
qed

text \<open>The example payload with code \<open>0x5\<close>, capability and opt-in: the scenario itself.\<close>

theorem page_fault_scenario_witness:
  "\<exists>b. build_exception_record (example_env True True) (example_payload 0x5) = Inr b
     \<and> code (exception_record b) = 0x5
     \<and> error_code (exception_record b) = 0x6
     \<and> write' (decode_error_code (error_code (exception_record b)))
     \<and> user_mode (decode_error_code (error_code (exception_record b)))
     \<and> \<not> present (decode_error_code (error_code (exception_record b)))"
proof -
  obtain b where
    b: "build_exception_record (example_env True True) (example_payload 0x5) = Inr b"
    using example_built by blast
  have x: "raw_extended_fault (example_payload 0x5)
      = Some \<lparr> ef_faulting_address = 0x7F0000002000, ef_error_code = 0x6 \<rparr>"
    by (simp add: example_payload_def)
  have c: "raw_code (example_payload 0x5) = 0x5"
    and f: "raw_flags (example_payload 0x5) = OE_EXCEPTION_FLAGS_HARDWARE"
    by (simp_all add: example_payload_def)
  have cap: "platform_capability (example_env True True)"
    and opt: "opted_in (example_env True True)"
    by (simp_all add: example_env_def)
  have e: "ef_error_code \<lparr> ef_faulting_address = 0x7F0000002000, ef_error_code = 0x6 \<rparr> = 0x6"
    by simp
  from page_fault_scenario [OF c f cap opt x e b] b show ?thesis
    by (auto simp: OE_EXCEPTION_PAGE_FAULT_def)
qed

text \<open>
  C6. On every platform (whatever the builder's settings), a payload whose xstate is not
  exactly 512 bytes, or whose buffer is not at a multiple of 16, is refused as malformed.
  Whenever the builder builds a record, the basic xstate it hands on is the raw bytes
  unchanged, 512 of them, and the context the record points to lies at a multiple of 16,
  the alignment the header declares.
\<close>

theorem xstate_size_and_alignment_enforced:
  "(length (raw_xstate raw) \<noteq> 512
      \<longrightarrow> build_exception_record env raw = Inl Malformed_Payload)
   \<and> (unat (raw_context_address raw) mod 16 \<noteq> 0
      \<longrightarrow> build_exception_record env raw = Inl Malformed_Payload)
   \<and> (\<forall>b. build_exception_record env raw = Inr b
      \<longrightarrow> blob (basic_xstate (register_context b)) = raw_xstate raw
          \<and> length (blob (basic_xstate (register_context b))) = 512
          \<and> context' (exception_record b) = raw_context_address raw
          \<and> unat (context' (exception_record b)) mod oe_basic_xstate_t_aligned = 0
          \<and> unat (context' (exception_record b)) mod 16 = 0)"
proof -
  have wrong_size: "build_exception_record env raw = Inl Malformed_Payload"
    if "length (raw_xstate raw) \<noteq> 512"
    using that by (simp add: build_exception_record_def check_xstate_def)
  have misaligned: "build_exception_record env raw = Inl Malformed_Payload"
    if "unat (raw_context_address raw) mod 16 \<noteq> 0"
    using that
    by (simp add: build_exception_record_def check_xstate_def buffer_aligned_def
        oe_basic_xstate_t_aligned_def split: option.splits)
  have built: "blob (basic_xstate (register_context b)) = raw_xstate raw
      \<and> length (blob (basic_xstate (register_context b))) = 512
      \<and> context' (exception_record b) = raw_context_address raw
      \<and> unat (context' (exception_record b)) mod oe_basic_xstate_t_aligned = 0
      \<and> unat (context' (exception_record b)) mod 16 = 0"
    if b: "build_exception_record env raw = Inr b" for b
  proof -
    have size: "length (raw_xstate raw) = 512"
      and aligned: "buffer_aligned (raw_context_address raw)"
      and copied: "register_context b =
        copy_context (raw_registers raw) (Abs_oe_basic_xstate_t (raw_xstate raw))"
      using built_context [OF b] by simp_all
    have bytes: "blob (Abs_oe_basic_xstate_t (raw_xstate raw)) = raw_xstate raw"
      using size by (simp add: Abs_oe_basic_xstate_t_inverse)
    have at: "context' (exception_record b) = raw_context_address raw"
      using built_record [OF b] by simp
    show ?thesis
      using size aligned
      by (simp add: copied copy_context_def bytes at buffer_aligned_def
          oe_basic_xstate_t_aligned_def)
  qed
  from wrong_size misaligned built show ?thesis
    by blast
qed

text \<open>
  The example payload is built, with its 512 bytes; the same payload with 511 bytes, or in
  a buffer eight bytes further on, is refused.
\<close>

theorem xstate_size_and_alignment_enforced_witness:
  "(\<exists>b. build_exception_record (example_env True True) (example_payload 0x5) = Inr b
      \<and> blob (basic_xstate (register_context b)) = replicate 512 0
      \<and> context' (exception_record b) = 0x7F0000100000)
   \<and> build_exception_record (example_env True True)
       ((example_payload 0x5)\<lparr>raw_xstate := replicate 511 0\<rparr>) = Inl Malformed_Payload
   \<and> build_exception_record (example_env True True)
       ((example_payload 0x5)\<lparr>raw_context_address := 0x7F0000100008\<rparr>)
     = Inl Malformed_Payload"
proof -
  obtain b where
    b: "build_exception_record (example_env True True) (example_payload 0x5) = Inr b"
    using example_built by blast
  have accepted: "blob (basic_xstate (register_context b)) = replicate 512 0
      \<and> context' (exception_record b) = 0x7F0000100000"
    using xstate_size_and_alignment_enforced
      [of "example_payload 0x5" "example_env True True"] b
    by (simp add: example_payload_def)
  have short: "build_exception_record (example_env True True)
      ((example_payload 0x5)\<lparr>raw_xstate := replicate 511 0\<rparr>) = Inl Malformed_Payload"
    using xstate_size_and_alignment_enforced
      [of "(example_payload 0x5)\<lparr>raw_xstate := replicate 511 0\<rparr>" "example_env True True"]
    by simp
  have shifted: "build_exception_record (example_env True True)
      ((example_payload 0x5)\<lparr>raw_context_address := 0x7F0000100008\<rparr>)
      = Inl Malformed_Payload"
    using xstate_size_and_alignment_enforced
      [of "(example_payload 0x5)\<lparr>raw_context_address := 0x7F0000100008\<rparr>"
          "example_env True True"]
    by simp
  from b accepted short shifted show ?thesis
    by blast
qed

end
